theory Spec2Isabelle
  imports Complex_Main "HOL-Library.AList"
begin

section \<open>Python values, text and errors\<close>

text \<open>
  The values that \<^verbatim>\<open>resp.json()\<close> can produce. A float is a finite value (taken as the
  exact rational it denotes; binary rounding error is not modelled) or one of the
  specials that Python's JSON decoder also accepts. A dict is an association list
  with distinct keys, read with \<open>map_of\<close>.
\<close>

datatype pyfloat = Finite rat | PosInf | NegInf | NaN

datatype pyval =
    PNone
  | PBool bool
  | PInt int
  | PFloat pyfloat
  | PStr string
  | PList "pyval list"
  | PDict "(string \<times> pyval) list"

text \<open>
  Text built by an f-string or written to a CSV cell: literal fragments and the
  \<^verbatim>\<open>str()\<close> of interpolated values. The rendering of a value that is not already a
  string is kept symbolic (\<open>StrOf v\<close> stands for \<^verbatim>\<open>str(v)\<close>,
  \<open>ReprOf v\<close> for \<^verbatim>\<open>repr(v)\<close>).
\<close>

datatype piece = Lit string | StrOf pyval | ReprOf pyval

type_synonym pytext = "piece list"

fun py_str :: "pyval \<Rightarrow> pytext" where
  "py_str (PStr s) = [Lit s]"
| "py_str v = [StrOf v]"

datatype error =
    ValueError pytext
  | AttributeError
  | TypeError
  | KeyError
  | IndexError
  | OverflowError
  | EOFError

text \<open>
  Sequencing of steps that may raise: the first exception ends the computation.
\<close>

fun then_do :: "error + 'a \<Rightarrow> ('a \<Rightarrow> error + 'b) \<Rightarrow> error + 'b" where
  "then_do (Inl e) f = Inl e"
| "then_do (Inr v) f = f v"

text \<open>Truthiness, as used by \<^verbatim>\<open>x or default\<close>.\<close>

fun truthy :: "pyval \<Rightarrow> bool" where
  "truthy PNone = False"
| "truthy (PBool b) = b"
| "truthy (PInt n) = (n \<noteq> 0)"
| "truthy (PFloat (Finite q)) = (q \<noteq> 0)"
| "truthy (PFloat _) = True"
| "truthy (PStr s) = (s \<noteq> [])"
| "truthy (PList xs) = (xs \<noteq> [])"
| "truthy (PDict kvs) = (kvs \<noteq> [])"

text \<open>\<^verbatim>\<open>d.get(key, default)\<close>: an AttributeError on anything but a dict.\<close>

fun py_get :: "pyval \<Rightarrow> string \<Rightarrow> pyval \<Rightarrow> error + pyval" where
  "py_get (PDict kvs) k dflt = Inr (case map_of kvs k of None \<Rightarrow> dflt | Some v \<Rightarrow> v)"
| "py_get _ k dflt = Inl AttributeError"

section \<open>Strings\<close>

text \<open>
  A Python str that the program looks into (a line read from the console, the
  key, the city) is the list of its code points. Text that is only printed or
  compared is written as a literal; \<open>str_of\<close> gives the str of an ASCII literal.
\<close>

type_synonym pystr = "nat list"

definition str_of :: "string \<Rightarrow> pystr" where
  "str_of s = map of_char s"

text \<open>
  Whitespace as \<^verbatim>\<open>str.strip\<close> and \<^verbatim>\<open>str.split\<close> see it: the code points for which
  \<^verbatim>\<open>str.isspace\<close> holds.
\<close>

definition is_space :: "nat \<Rightarrow> bool" where
  "is_space c =
     ((9 \<le> c \<and> c \<le> 13) \<or> (28 \<le> c \<and> c \<le> 32) \<or> c = 0x85 \<or> c = 0xA0 \<or> c = 0x1680
      \<or> (0x2000 \<le> c \<and> c \<le> 0x200A) \<or> c = 0x2028 \<or> c = 0x2029 \<or> c = 0x202F
      \<or> c = 0x205F \<or> c = 0x3000)"

text \<open>\<^verbatim>\<open>s.strip()\<close>\<close>

definition strip :: "pystr \<Rightarrow> pystr" where
  "strip s = rev (dropWhile is_space (rev (dropWhile is_space s)))"

text \<open>\<^verbatim>\<open>s.split()\<close>: the maximal runs of non-whitespace, \<open>cur\<close> the run being read.\<close>

fun split_from :: "pystr \<Rightarrow> pystr \<Rightarrow> pystr list" where
  "split_from cur [] = (if cur = [] then [] else [cur])"
| "split_from cur (c # cs) =
     (if is_space c then (if cur = [] then split_from [] cs else cur # split_from [] cs)
      else split_from (cur @ [c]) cs)"

definition split :: "pystr \<Rightarrow> pystr list" where
  "split s = split_from [] s"

text \<open>\<^verbatim>\<open>sep.join(ws)\<close>\<close>

fun join :: "pystr \<Rightarrow> pystr list \<Rightarrow> pystr" where
  "join sep [] = []"
| "join sep [w] = w"
| "join sep (w # ws) = w @ sep @ join sep ws"

text \<open>
  The case tables of the Unicode database, which \<^verbatim>\<open>str.title\<close> reads. They are no
  part of this program and are a parameter of the model: whether a character is
  cased, whether it is case-ignorable, and its full titlecase and lowercase
  mappings (one to three characters). The last three fields are what
  \<^verbatim>\<open>str.isupper\<close>, the titlecase test and \<^verbatim>\<open>str.islower\<close> say of a character; the
  program does not read them, the statement of title case does.
\<close>

record unicode_db =
  is_cased :: "nat \<Rightarrow> bool"
  is_case_ignorable :: "nat \<Rightarrow> bool"
  to_title :: "nat \<Rightarrow> pystr"
  to_lower :: "nat \<Rightarrow> pystr"
  is_upper :: "nat \<Rightarrow> bool"
  is_title :: "nat \<Rightarrow> bool"
  is_lower :: "nat \<Rightarrow> bool"

text \<open>
  Whether the capital sigma at index \<open>i\<close> of \<open>s\<close> ends a word: a cased character
  before it and none after it, case-ignorable characters skipped.
\<close>

definition final_sigma :: "unicode_db \<Rightarrow> pystr \<Rightarrow> nat \<Rightarrow> bool" where
  "final_sigma db s i =
     (case dropWhile (is_case_ignorable db) (rev (take i s)) of
        [] \<Rightarrow> False
      | c # before \<Rightarrow>
          is_cased db c \<and>
          (case dropWhile (is_case_ignorable db) (drop (Suc i) s) of
             [] \<Rightarrow> True
           | d # after \<Rightarrow> \<not> is_cased db d))"

text \<open>The lowercase of the character \<open>c\<close> at index \<open>i\<close> of \<open>s\<close>.\<close>

definition lower_ucs4 :: "unicode_db \<Rightarrow> pystr \<Rightarrow> nat \<Rightarrow> nat \<Rightarrow> pystr" where
  "lower_ucs4 db s i c =
     (if c = 0x3A3 then [if final_sigma db s i then 0x3C2 else 0x3C3] else to_lower db c)"

text \<open>
  \<^verbatim>\<open>s.title()\<close>, as CPython computes it: a character that follows a cased character
  is replaced by its lowercase, any other character by its titlecase. \<open>cs\<close> is the
  rest of \<open>s\<close> from index \<open>i\<close>.
\<close>

fun do_title :: "unicode_db \<Rightarrow> pystr \<Rightarrow> nat \<Rightarrow> bool \<Rightarrow> pystr \<Rightarrow> pystr" where
  "do_title db s i previous_is_cased [] = []"
| "do_title db s i previous_is_cased (c # cs) =
     (if previous_is_cased then lower_ucs4 db s i c else to_title db c)
     @ do_title db s (Suc i) (is_cased db c) cs"

definition title :: "unicode_db \<Rightarrow> pystr \<Rightarrow> pystr" where
  "title db s = do_title db s 0 False s"

section \<open>fetch_weather\<close>

text \<open>
  The outcome of \<^verbatim>\<open>requests.get\<close>: a transport failure with the exception's text, or
  a response with its status code and its body as \<^verbatim>\<open>resp.json()\<close> decodes it
  (\<open>None\<close> when decoding raises JSONDecodeError).
\<close>

datatype http_outcome = RequestException string | Response int "pyval option"

definition API_URL :: string where
  "API_URL = ''https://api.openweathermap.org/data/2.5/weather''"

type_synonym requests_get = "string \<Rightarrow> (string \<times> pystr) list \<Rightarrow> nat \<Rightarrow> http_outcome"

definition fetch_weather :: "requests_get \<Rightarrow> pystr \<Rightarrow> pystr \<Rightarrow> error + pyval" where
  "fetch_weather get city api_key =
     (case get API_URL [(''q'', city), (''appid'', api_key), (''units'', str_of ''metric'')] 10 of
        RequestException exc \<Rightarrow>
          Inl (ValueError [Lit ''Network error contacting the API: '', Lit exc])
      | Response status_code body \<Rightarrow>
          (let data = (case body of None \<Rightarrow> PDict [] | Some d \<Rightarrow> d) in
           if status_code = 200 then Inr data
           else if status_code = 401 then
             Inl (ValueError [Lit ''Unauthorized (401): Invalid or missing API key.''])
           else if status_code = 404 then
             then_do (py_get data ''message'' (PStr ''City not found.'')) (\<lambda>msg.
             Inl (ValueError (Lit ''Not found (404): '' # py_str msg)))
           else
             then_do (py_get data ''message'' (PStr ''Unexpected error'')) (\<lambda>msg.
             Inl (ValueError ([Lit ''API error ('', StrOf (PInt status_code), Lit ''): '']
                              @ py_str msg)))))"

section \<open>parse_weather\<close>

text \<open>
  \<^verbatim>\<open>float(s)\<close> and \<^verbatim>\<open>int(s)\<close> on a string argument parse Python's numeric literals.
  That grammar is not part of this program; the two parsers are parameters of the
  model (\<open>None\<close> when the builtin raises ValueError).
\<close>

record pyconv =
  str_to_float :: "string \<Rightarrow> pyfloat option"
  str_to_int :: "string \<Rightarrow> int option"

text \<open>\<^verbatim>\<open>x or default\<close>\<close>

definition py_or :: "pyval \<Rightarrow> pyval \<Rightarrow> pyval" where
  "py_or x dflt = (if truthy x then x else dflt)"

text \<open>\<^verbatim>\<open>x[0]\<close>\<close>

fun py_index0 :: "pyval \<Rightarrow> error + pyval" where
  "py_index0 (PList []) = Inl IndexError"
| "py_index0 (PList (x # xs)) = Inr x"
| "py_index0 (PStr []) = Inl IndexError"
| "py_index0 (PStr (c # cs)) = Inr (PStr [c])"
| "py_index0 (PDict kvs) = Inl KeyError"
| "py_index0 _ = Inl TypeError"

text \<open>
  \<^verbatim>\<open>float(x)\<close>. An int that does not round to a finite double raises OverflowError;
  the bound is the midpoint between the largest double and \<open>2 ^ 1024\<close>.
\<close>

definition float_max_int :: int where
  "float_max_int = 2 ^ 1024 - 2 ^ 970"

fun py_float :: "pyconv \<Rightarrow> pyval \<Rightarrow> error + pyfloat" where
  "py_float B (PBool b) = Inr (Finite (if b then 1 else 0))"
| "py_float B (PInt n) =
     (if \<bar>n\<bar> < float_max_int then Inr (Finite (of_int n)) else Inl OverflowError)"
| "py_float B (PFloat f) = Inr f"
| "py_float B (PStr s) =
     (case str_to_float B s of
        Some f \<Rightarrow> Inr f
      | None \<Rightarrow> Inl (ValueError [Lit ''could not convert string to float: '', ReprOf (PStr s)]))"
| "py_float B _ = Inl TypeError"

text \<open>Rounding a rational to the nearest integer, ties to the even neighbour.\<close>

definition round_half_even :: "rat \<Rightarrow> int" where
  "round_half_even x =
     (let f = \<lfloor>x\<rfloor>; d = x - of_int f in
      if d < 1 / 2 then f
      else if 1 / 2 < d then f + 1
      else if even f then f else f + 1)"

text \<open>\<^verbatim>\<open>round(x, 1)\<close> on a float\<close>

fun py_round1 :: "pyfloat \<Rightarrow> pyfloat" where
  "py_round1 (Finite q) = Finite (of_int (round_half_even (q * 10)) / 10)"
| "py_round1 f = f"

text \<open>Truncation toward zero.\<close>

definition trunc :: "rat \<Rightarrow> int" where
  "trunc q = (if 0 \<le> q then \<lfloor>q\<rfloor> else \<lceil>q\<rceil>)"

text \<open>\<^verbatim>\<open>int(x)\<close>\<close>

fun py_int :: "pyconv \<Rightarrow> pyval \<Rightarrow> error + int" where
  "py_int B (PBool b) = Inr (if b then 1 else 0)"
| "py_int B (PInt n) = Inr n"
| "py_int B (PFloat (Finite q)) = Inr (trunc q)"
| "py_int B (PFloat NaN) = Inl (ValueError [Lit ''cannot convert float NaN to integer''])"
| "py_int B (PFloat _) = Inl OverflowError"
| "py_int B (PStr s) =
     (case str_to_int B s of
        Some n \<Rightarrow> Inr n
      | None \<Rightarrow>
          Inl (ValueError [Lit ''invalid literal for int() with base 10: '', ReprOf (PStr s)]))"
| "py_int B _ = Inl TypeError"

text \<open>The em dash of the country placeholder, in UTF-8.\<close>

definition em_dash :: string where
  "em_dash = [CHR 0xE2, CHR 0x80, CHR 0x94]"

type_synonym row = "(string \<times> pyval) list"

definition parse_weather :: "pyconv \<Rightarrow> pyval \<Rightarrow> error + row" where
  "parse_weather B data =
     then_do (py_get data ''name'' (PStr ''Unknown'')) (\<lambda>city.
     then_do (py_get data ''sys'' PNone) (\<lambda>sys.
     then_do (py_get (py_or sys (PDict [])) ''country'' (PStr em_dash)) (\<lambda>country.
     then_do (py_get data ''main'' PNone) (\<lambda>main0.
     let main = py_or main0 (PDict []) in
     then_do (py_get main ''temp'' PNone) (\<lambda>temp_c.
     then_do (py_get main ''humidity'' PNone) (\<lambda>humidity.
     then_do (py_get data ''weather'' PNone) (\<lambda>weather0.
     let weather_list = py_or weather0 (PList []) in
     then_do (if truthy weather_list
              then then_do (py_index0 weather_list) (\<lambda>w. py_get w ''description'' PNone)
              else Inr (PStr [])) (\<lambda>d.
     let description = py_or d (PStr ''n/a'') in
     if temp_c = PNone \<or> humidity = PNone then
       Inl (ValueError [Lit ''API response missing temperature or humidity fields.''])
     else
       then_do (py_float B temp_c) (\<lambda>t.
       then_do (py_int B humidity) (\<lambda>h.
       Inr [(''City'', city),
            (''Country'', country),
            (''Temperature (C)'', PFloat (py_round1 t)),
            (''Humidity (%)'', PInt h),
            (''Description'', description)]))))))))))"

section \<open>Console\<close>

text \<open>
  What the program writes to standard output, in order: a printed line or the
  prompt of an \<^verbatim>\<open>input()\<close> call. Standard input is the list of lines that can still be
  read; \<^verbatim>\<open>input()\<close> on the empty list raises EOFError.
\<close>

datatype out = Print pytext | Prompt string

text \<open>How a step of the program ends: normally, by an exception, or by \<^verbatim>\<open>sys.exit\<close>.\<close>

datatype 'a outcome = Return 'a | Raise error | Exit nat

section \<open>get_api_key\<close>

definition get_api_key :: "pystr option \<Rightarrow> pystr list \<Rightarrow> out list \<times> pystr list \<times> pystr outcome" where
  "get_api_key env stdin =
     (case (case env of
              None \<Rightarrow> None
            | Some key \<Rightarrow> (if key \<noteq> [] \<and> strip key \<noteq> [] then Some (strip key) else None)) of
        Some key \<Rightarrow> ([], stdin, Return key)
      | None \<Rightarrow>
          (case stdin of
             [] \<Rightarrow>
               ([Print [Lit ''No OPENWEATHER_API_KEY found in environment.''],
                 Prompt ''Enter your OpenWeatherMap API key: ''], [], Raise EOFError)
           | line # rest \<Rightarrow>
               (if strip line = [] then
                  ([Print [Lit ''No OPENWEATHER_API_KEY found in environment.''],
                    Prompt ''Enter your OpenWeatherMap API key: '',
                    Print [Lit ''An API key is required. Exiting.'']], rest, Exit 1)
                else
                  ([Print [Lit ''No OPENWEATHER_API_KEY found in environment.''],
                    Prompt ''Enter your OpenWeatherMap API key: ''], rest, Return (strip line)))))"

section \<open>prompt_city\<close>

text \<open>The normalisation of a stripped, non-empty input.\<close>

definition normalize_city :: "unicode_db \<Rightarrow> pystr \<Rightarrow> pystr" where
  "normalize_city db raw = title db (join [0x20] (split raw))"

text \<open>
  The loop reads lines until one is non-empty after stripping. Standard input being
  a finite list, it ends: with the city, or with EOFError when the lines run out.
\<close>

fun prompt_city :: "unicode_db \<Rightarrow> pystr list \<Rightarrow> out list \<times> pystr list \<times> pystr outcome" where
  "prompt_city db [] = ([Prompt ''Enter a city name: ''], [], Raise EOFError)"
| "prompt_city db (line # rest) =
     (let raw = strip line in
      if raw \<noteq> [] then ([Prompt ''Enter a city name: ''], rest, Return (normalize_city db raw))
      else
        (case prompt_city db rest of (outs, stdin', r) \<Rightarrow>
           (Prompt ''Enter a city name: ''
            # Print [Lit ''City name cannot be empty. Please try again.'']
            # outs, stdin', r)))"

section \<open>print_summary\<close>

text \<open>\<^verbatim>\<open>row[key]\<close>\<close>

definition py_item :: "row \<Rightarrow> string \<Rightarrow> error + pyval" where
  "py_item r k = (case map_of r k of None \<Rightarrow> Inl KeyError | Some v \<Rightarrow> Inr v)"

text \<open>The degree sign, in UTF-8.\<close>

definition degree :: string where
  "degree = [CHR 0xC2, CHR 0xB0]"

definition print_summary :: "row \<Rightarrow> error + out" where
  "print_summary r =
     then_do (py_item r ''City'') (\<lambda>city.
     then_do (py_item r ''Country'') (\<lambda>country.
     then_do (py_item r ''Description'') (\<lambda>description.
     then_do (py_item r ''Temperature (C)'') (\<lambda>temp.
     then_do (py_item r ''Humidity (%)'') (\<lambda>humidity.
     Inr (Print ([Lit (CHR 0x0A # ''Weather for '')] @ py_str city @ [Lit '', '']
                 @ py_str country @ [Lit '': ''] @ py_str description @ [Lit '' | Temp: '']
                 @ py_str temp @ [Lit (degree @ ''C | Humidity: '')]
                 @ py_str humidity @ [Lit [CHR ''%'', CHR 0x0A]])))))))"

section \<open>The CSV file\<close>

text \<open>
  The file is \<open>None\<close> while it does not exist; otherwise it is the sequence of records
  it holds, each a list of cells, as the csv module writes and reads them. The
  file has length zero exactly when it holds no record. Failures of the file
  system are not modelled.
\<close>

type_synonym csv_file = "pytext list list option"

definition CSV_HEADERS :: "string list" where
  "CSV_HEADERS = [''City'', ''Country'', ''Temperature (C)'', ''Humidity (%)'', ''Description'']"

text \<open>The text the csv writer puts in a cell: nothing for None, else \<^verbatim>\<open>str\<close> of the value.\<close>

fun cell_of :: "pyval \<Rightarrow> pytext" where
  "cell_of PNone = [Lit []]"
| "cell_of v = py_str v"

definition header_record :: "pytext list" where
  "header_record = map (\<lambda>h. [Lit h]) CSV_HEADERS"

text \<open>The cells of a row in header order; a header that is no key of the row gives an empty cell.\<close>

definition row_cells :: "row \<Rightarrow> pytext list" where
  "row_cells r = map (\<lambda>h. cell_of (case map_of r h of None \<Rightarrow> PStr [] | Some v \<Rightarrow> v)) CSV_HEADERS"

text \<open>The \<^verbatim>\<open>repr\<close> of each key, joined with a comma and a space.\<close>

fun join_reprs :: "string list \<Rightarrow> pytext" where
  "join_reprs [] = []"
| "join_reprs [k] = [ReprOf (PStr k)]"
| "join_reprs (k # ks) = ReprOf (PStr k) # Lit '', '' # join_reprs ks"

text \<open>
  \<^verbatim>\<open>DictWriter.writerow\<close> first checks the keys: a key of the row that is no header
  raises ValueError (the message lists the keys, here in the order of the row).
\<close>

definition row_record :: "row \<Rightarrow> error + pytext list" where
  "row_record r =
     (let wrong_fields = filter (\<lambda>k. k \<notin> set CSV_HEADERS) (map fst r) in
      if wrong_fields \<noteq> [] then
        Inl (ValueError (Lit ''dict contains fields not in fieldnames: '' # join_reprs wrong_fields))
      else Inr (row_cells r))"

section \<open>write_row_to_csv\<close>

text \<open>
  Returns the exception raised, if any, and the file as the call leaves it: opening
  in append mode creates the file, and the header is written before the row is
  checked.
\<close>

definition write_row_to_csv :: "row \<Rightarrow> csv_file \<Rightarrow> error option \<times> csv_file" where
  "write_row_to_csv r csv =
     (let write_header = (case csv of None \<Rightarrow> True | Some recs \<Rightarrow> recs = []);
          opened = (case csv of None \<Rightarrow> [] | Some recs \<Rightarrow> recs);
          headed = (if write_header then opened @ [header_record] else opened)
      in case row_record r of
           Inl e \<Rightarrow> (Some e, Some headed)
         | Inr cells \<Rightarrow> (None, Some (headed @ [cells])))"


section \<open>read_and_report\<close>

text \<open>
  A row as DictReader builds it: the header's cells paired with the record's cells,
  a later duplicate of a key replacing the earlier value; a header with no cell in
  a short record gets None. The surplus cells of a long record go under the key
  None, which no lookup by name reaches, and are left out.
\<close>

definition dict_row :: "pytext list \<Rightarrow> pytext list \<Rightarrow> (pytext \<times> pytext option) list" where
  "dict_row fieldnames r =
     fold (\<lambda>k d. AList.update k None d) (drop (length r) fieldnames)
       (fold (\<lambda>(k, v) d. AList.update k (Some v) d) (zip fieldnames r) [])"

text \<open>\<^verbatim>\<open>r.get(key, default)\<close>, as the f-string shows it.\<close>

definition row_get :: "(pytext \<times> pytext option) list \<Rightarrow> string \<Rightarrow> string \<Rightarrow> pytext" where
  "row_get d k dflt =
     (case map_of d [Lit k] of
        None \<Rightarrow> [Lit dflt]
      | Some None \<Rightarrow> [StrOf PNone]
      | Some (Some c) \<Rightarrow> c)"

definition report_line :: "(pytext \<times> pytext option) list \<Rightarrow> out" where
  "report_line d =
     Print ([Lit '' - ''] @ row_get d ''City'' ''Unknown'' @ [Lit '': '']
            @ row_get d ''Temperature (C)'' ''n/a'' @ [Lit (degree @ ''C'')])"

text \<open>The rows that \<^verbatim>\<open>list(reader)\<close> yields: the first record is the header, empty records are skipped.\<close>

definition read_rows :: "pytext list list \<Rightarrow> (pytext \<times> pytext option) list list" where
  "read_rows recs =
     (case recs of
        [] \<Rightarrow> []
      | fieldnames # rest \<Rightarrow> map (dict_row fieldnames) (filter (\<lambda>r. r \<noteq> []) rest))"

definition no_data :: out where
  "no_data = Print [Lit ''No CSV data to report yet.'']"

definition read_and_report :: "string \<Rightarrow> csv_file \<Rightarrow> out list" where
  "read_and_report name csv =
     (case csv of
        None \<Rightarrow> [no_data]
      | Some recs \<Rightarrow>
          (if recs = [] then [no_data]
           else
             (let rows = read_rows recs in
              if rows = [] then [no_data]
              else Print [Lit ''Entries in '', Lit name, Lit '': '', StrOf (PInt (int (length rows)))]
                   # map report_line rows)))"

section \<open>main\<close>

text \<open>
  How the process ends: with an exit code, or with an exception that nothing
  catches (the interpreter then prints a traceback and the exit code is 1).
\<close>

datatype ending = ExitCode nat | Uncaught error

definition CSV_FILE :: string where
  "CSV_FILE = ''city_data.csv''"

text \<open>The last statement, \<^verbatim>\<open>read_and_report()\<close>, after which the process ends normally.\<close>

definition report_and_exit :: "csv_file \<Rightarrow> out list \<times> ending \<times> csv_file" where
  "report_and_exit csv = (read_and_report CSV_FILE csv, ExitCode 0, csv)"

text \<open>The statements after the \<^verbatim>\<open>try\<close> block.\<close>

definition report_parsed :: "row \<Rightarrow> csv_file \<Rightarrow> out list \<times> ending \<times> csv_file" where
  "report_parsed parsed csv =
     (case print_summary parsed of
        Inl e \<Rightarrow> ([], Uncaught e, csv)
      | Inr line \<Rightarrow>
          (case write_row_to_csv parsed csv of
             (Some e, csv') \<Rightarrow> ([line], Uncaught e, csv')
           | (None, csv') \<Rightarrow>
               (case report_and_exit csv' of (outs, fin, csv'') \<Rightarrow> (line # outs, fin, csv''))))"

text \<open>The \<^verbatim>\<open>try\<close> block and its handler, which catches ValueError only.\<close>

definition fetch_and_report ::
  "pyconv \<Rightarrow> requests_get \<Rightarrow> pystr \<Rightarrow> pystr \<Rightarrow> csv_file \<Rightarrow> out list \<times> ending \<times> csv_file" where
  "fetch_and_report B get city api_key csv =
     (case then_do (fetch_weather get city api_key) (parse_weather B) of
        Inl (ValueError err) \<Rightarrow> ([Print (Lit ''Error: '' # err)], ExitCode 1, csv)
      | Inl e \<Rightarrow> ([], Uncaught e, csv)
      | Inr parsed \<Rightarrow> report_parsed parsed csv)"

text \<open>Ending a step early when the one before raised or exited.\<close>

fun after :: "out list \<times> pystr list \<times> 'a outcome \<Rightarrow> csv_file \<Rightarrow>
    (pystr list \<Rightarrow> 'a \<Rightarrow> out list \<times> ending \<times> csv_file) \<Rightarrow> out list \<times> ending \<times> csv_file" where
  "after (outs, stdin, Raise e) csv k = (outs, Uncaught e, csv)"
| "after (outs, stdin, Exit n) csv k = (outs, ExitCode n, csv)"
| "after (outs, stdin, Return v) csv k =
     (case k stdin v of (outs', fin, csv') \<Rightarrow> (outs @ outs', fin, csv'))"

text \<open>
  The program: the case tables, the environment variable, the lines on standard
  input, the network and the file before the run give the output, the ending and
  the file after it.
\<close>

definition main ::
  "unicode_db \<Rightarrow> pyconv \<Rightarrow> pystr option \<Rightarrow> pystr list \<Rightarrow> requests_get \<Rightarrow> csv_file
     \<Rightarrow> out list \<times> ending \<times> csv_file" where
  "main db B env stdin get csv =
     after (get_api_key env stdin) csv (\<lambda>stdin1 api_key.
     after (prompt_city db stdin1) csv (\<lambda>stdin2 city.
     fetch_and_report B get city api_key csv))"

section \<open>Notions used to state the properties\<close>

text \<open>A network that answers every request with the same outcome.\<close>

definition respond :: "http_outcome \<Rightarrow> requests_get" where
  "respond r url params timeout = r"

text \<open>The parsers of a Python in which no string is a numeric literal; used for examples only.\<close>

definition no_literals :: pyconv where
  "no_literals = \<lparr>str_to_float = (\<lambda>s. None), str_to_int = (\<lambda>s. None)\<rparr>"

text \<open>\<^verbatim>\<open>d.get(key)\<close> on the items of a dict: None when the key is absent.\<close>

definition field :: "(string \<times> pyval) list \<Rightarrow> string \<Rightarrow> pyval" where
  "field kvs k = (case map_of kvs k of None \<Rightarrow> PNone | Some v \<Rightarrow> v)"

fun is_dict :: "pyval \<Rightarrow> bool" where
  "is_dict (PDict kvs) = True"
| "is_dict _ = False"

text \<open>The items of a value that is used as a dict after \<^verbatim>\<open>or {}\<close>.\<close>

fun items :: "pyval \<Rightarrow> (string \<times> pyval) list" where
  "items (PDict kvs) = kvs"
| "items _ = []"

text \<open>The shape of a \<^verbatim>\<open>sys\<close> or \<^verbatim>\<open>main\<close> value that the parser reads without an exception.\<close>

definition dict_or_falsy :: "pyval \<Rightarrow> bool" where
  "dict_or_falsy v = (is_dict v \<or> \<not> truthy v)"

text \<open>The same for \<^verbatim>\<open>weather\<close>: falsy, or a list whose first element is a dict.\<close>

fun weather_shape :: "pyval \<Rightarrow> bool" where
  "weather_shape (PList (PDict w # ws)) = True"
| "weather_shape v = (\<not> truthy v)"

text \<open>The description the parser finds, before the \<^verbatim>\<open>or 'n/a'\<close>.\<close>

fun found_description :: "pyval \<Rightarrow> pyval" where
  "found_description (PList (PDict w # ws)) = field w ''description''"
| "found_description v = PStr []"


text \<open>
  A database that agrees with the Unicode tables at every code point below 256
  and knows no case above; used for examples only.
\<close>

definition latin1 :: unicode_db where
  "latin1 =
     \<lparr>is_cased = (\<lambda>c. (0x41 \<le> c \<and> c \<le> 0x5A) \<or> (0x61 \<le> c \<and> c \<le> 0x7A) \<or> c = 0xAA \<or> c = 0xB5
                       \<or> c = 0xBA \<or> (0xC0 \<le> c \<and> c \<le> 0xD6) \<or> (0xD8 \<le> c \<and> c \<le> 0xF6)
                       \<or> (0xF8 \<le> c \<and> c \<le> 0xFF)),
      is_case_ignorable = (\<lambda>c. c \<in> {0x27, 0x2E, 0x3A, 0x5E, 0x60, 0xA8, 0xAD, 0xAF, 0xB4, 0xB7, 0xB8}),
      to_title = (\<lambda>c. if (0x61 \<le> c \<and> c \<le> 0x7A) \<or> (0xE0 \<le> c \<and> c \<le> 0xF6) \<or> (0xF8 \<le> c \<and> c \<le> 0xFE)
                       then [c - 32]
                       else if c = 0xB5 then [0x39C]
                       else if c = 0xDF then [0x53, 0x73]
                       else if c = 0xFF then [0x178]
                       else [c]),
      to_lower = (\<lambda>c. if (0x41 \<le> c \<and> c \<le> 0x5A) \<or> (0xC0 \<le> c \<and> c \<le> 0xD6) \<or> (0xD8 \<le> c \<and> c \<le> 0xDE)
                       then [c + 32] else [c]),
      is_upper = (\<lambda>c. (0x41 \<le> c \<and> c \<le> 0x5A) \<or> (0xC0 \<le> c \<and> c \<le> 0xD6) \<or> (0xD8 \<le> c \<and> c \<le> 0xDE)),
      is_title = (\<lambda>c. False),
      is_lower = (\<lambda>c. (0x61 \<le> c \<and> c \<le> 0x7A) \<or> c = 0xAA \<or> c = 0xB5 \<or> c = 0xBA
                       \<or> (0xDF \<le> c \<and> c \<le> 0xF6) \<or> (0xF8 \<le> c \<and> c \<le> 0xFF))\<rparr>"







section \<open>Properties of fetch_weather\<close>

text \<open>
  C6. On a response with status 200 whose body decodes as JSON, \<open>fetch_weather\<close>
  returns the decoded body, unchanged.
\<close>

theorem fetch_weather_ok_returns_body:
  assumes "get API_URL [(''q'', city), (''appid'', api_key), (''units'', str_of ''metric'')] 10
             = Response 200 (Some body)"
  shows "fetch_weather get city api_key = Inr body"
  using assms by (simp add: fetch_weather_def)

theorem fetch_weather_ok_returns_body_witness:
  "fetch_weather (respond (Response 200 (Some (PDict [(''name'', PStr ''Oslo'')])))) (str_of ''Oslo'') (str_of ''k'')
     = Inr (PDict [(''name'', PStr ''Oslo'')])"
  using fetch_weather_ok_returns_body
          [of "respond (Response 200 (Some (PDict [(''name'', PStr ''Oslo'')])))" "str_of ''Oslo''" "str_of ''k''"
              "PDict [(''name'', PStr ''Oslo'')]"]
  by (simp add: respond_def)

text \<open>
  C4, as the code has it. A response with status 401 gives the unauthorized error
  whatever its body. A response with status 404 gives the not-found error when its
  body does not decode or decodes to a JSON object: the text carries the object's
  \<open>message\<close> when it has one and \<open>City not found.\<close> otherwise.
\<close>

theorem fetch_weather_401_404:
  assumes "get API_URL [(''q'', city), (''appid'', api_key), (''units'', str_of ''metric'')] 10
             = Response status body"
  shows "(status = 401 \<longrightarrow>
            fetch_weather get city api_key
              = Inl (ValueError [Lit ''Unauthorized (401): Invalid or missing API key.'']))
       \<and> (status = 404 \<longrightarrow> body = None \<longrightarrow>
            fetch_weather get city api_key
              = Inl (ValueError [Lit ''Not found (404): '', Lit ''City not found.'']))
       \<and> (status = 404 \<longrightarrow> body = Some (PDict kvs) \<longrightarrow>
            fetch_weather get city api_key
              = Inl (ValueError (Lit ''Not found (404): ''
                      # (case map_of kvs ''message'' of
                           None \<Rightarrow> [Lit ''City not found.'']
                         | Some msg \<Rightarrow> py_str msg))))"
  using assms by (auto simp add: fetch_weather_def split: option.splits)

theorem fetch_weather_401_404_witness:
  "fetch_weather (respond (Response 401 None)) (str_of ''Oslo'') (str_of ''k'')
     = Inl (ValueError [Lit ''Unauthorized (401): Invalid or missing API key.''])
   \<and> fetch_weather (respond (Response 404 None)) (str_of ''Oslo'') (str_of ''k'')
     = Inl (ValueError [Lit ''Not found (404): '', Lit ''City not found.''])
   \<and> fetch_weather (respond (Response 404 (Some (PDict [(''cod'', PStr ''404''), (''message'', PStr ''city not found'')])))) (str_of ''Oslo'') (str_of ''k'')
     = Inl (ValueError [Lit ''Not found (404): '', Lit ''city not found''])"
  using fetch_weather_401_404 [of "respond (Response 401 None)" "str_of ''Oslo''" "str_of ''k''" 401 None]
        fetch_weather_401_404 [of "respond (Response 404 None)" "str_of ''Oslo''" "str_of ''k''" 404 None]
        fetch_weather_401_404
          [of "respond (Response 404 (Some (PDict [(''cod'', PStr ''404''), (''message'', PStr ''city not found'')])))"
              "str_of ''Oslo''" "str_of ''k''" 404
              "Some (PDict [(''cod'', PStr ''404''), (''message'', PStr ''city not found'')])"
              "[(''cod'', PStr ''404''), (''message'', PStr ''city not found'')]"]
  by (simp add: respond_def)

text \<open>
  C4 as stated fails: a 404 response whose body is the JSON array \<open>[]\<close> makes the
  lookup of \<open>message\<close> raise AttributeError, not the not-found error.
\<close>

theorem fetch_weather_404_array_body:
  "fetch_weather (respond (Response 404 (Some (PList [])))) (str_of ''Oslo'') (str_of ''k'') = Inl AttributeError"
  by (simp add: fetch_weather_def respond_def)

section \<open>Properties of read_and_report\<close>

text \<open>
  C8. When the file does not exist or has length zero, \<open>read_and_report\<close> prints
  \<open>No CSV data to report yet.\<close> and nothing else, and the program, whose last
  statement this call is, ends with exit code 0.
\<close>

theorem read_and_report_nothing_yet:
  assumes "csv = None \<or> csv = Some []"
  shows "read_and_report name csv = [Print [Lit ''No CSV data to report yet.'']]
       \<and> report_and_exit csv = ([Print [Lit ''No CSV data to report yet.'']], ExitCode 0, csv)"
  using assms by (auto simp add: read_and_report_def report_and_exit_def no_data_def)

theorem read_and_report_nothing_yet_witness:
  "read_and_report ''city_data.csv'' (Some []) = [Print [Lit ''No CSV data to report yet.'']]
   \<and> report_and_exit None = ([Print [Lit ''No CSV data to report yet.'']], ExitCode 0, None)"
  using read_and_report_nothing_yet [of "Some []" "''city_data.csv''"]
        read_and_report_nothing_yet [of None "''city_data.csv''"]
  by simp

text \<open>
  C9. A file that holds a header and no data row (the records after the header, if
  any, are all empty) gets the same single line as a missing file.
\<close>

theorem read_and_report_header_only:
  assumes "\<forall>r \<in> set rest. r = []"
  shows "read_and_report name (Some (fieldnames # rest)) = [Print [Lit ''No CSV data to report yet.'']]
       \<and> read_and_report name (Some (fieldnames # rest)) = read_and_report name None"
proof -
  from assms have "filter (\<lambda>r. r \<noteq> []) rest = []"
    by (simp add: filter_empty_conv)
  then show ?thesis
    by (simp add: read_and_report_def read_rows_def no_data_def)
qed

theorem read_and_report_header_only_witness:
  "read_and_report ''city_data.csv'' (Some [header_record]) = [Print [Lit ''No CSV data to report yet.'']]
   \<and> read_and_report ''city_data.csv'' (Some [header_record, []]) = read_and_report ''city_data.csv'' None"
proof -
  have none: "\<forall>r \<in> set ([] :: pytext list list). r = []" by simp
  have blank: "\<forall>r \<in> set [[] :: pytext list]. r = []" by simp
  from read_and_report_header_only [OF none, of "''city_data.csv''" header_record]
       read_and_report_header_only [OF blank, of "''city_data.csv''" header_record]
  show ?thesis by blast
qed

text \<open>
  The report of a file with data rows: the count of the non-empty records after
  the header, then one line for each of them, in the order of the file.
\<close>

lemma read_and_report_lists_rows:
  assumes "filter (\<lambda>r. r \<noteq> []) rest \<noteq> []"
  shows "read_and_report name (Some (fieldnames # rest))
       = Print [Lit ''Entries in '', Lit name, Lit '': '',
                StrOf (PInt (int (length (filter (\<lambda>r. r \<noteq> []) rest))))]
         # map (\<lambda>r. Print ([Lit '' - ''] @ row_get (dict_row fieldnames r) ''City'' ''Unknown''
                               @ [Lit '': ''] @ row_get (dict_row fieldnames r) ''Temperature (C)'' ''n/a''
                               @ [Lit (degree @ ''C'')]))
             (filter (\<lambda>r. r \<noteq> []) rest)"
  using assms by (simp add: read_and_report_def read_rows_def report_line_def comp_def)

text \<open>What a lookup in a row gives, in terms of the header and the record.\<close>

lemma map_of_fold_update_some:
  "map_of (fold (\<lambda>(k, v) d. AList.update k (Some v) d) kvs d0) k
     = (case map_of (rev kvs) k of None \<Rightarrow> map_of d0 k | Some v \<Rightarrow> Some (Some v))"
  by (induction kvs arbitrary: d0) (auto simp add: update_conv' split: option.splits)

lemma map_of_fold_update_none:
  "map_of (fold (\<lambda>k d. AList.update k None d) ks d0) k
     = (if k \<in> set ks then Some None else map_of d0 k)"
  by (induction ks arbitrary: d0) (auto simp add: update_conv')

lemma row_get_dict_row:
  "row_get (dict_row fieldnames r) k dflt
     = (if [Lit k] \<in> set (drop (length r) fieldnames) then [StrOf PNone]
        else case map_of (rev (zip fieldnames r)) [Lit k] of
               None \<Rightarrow> [Lit dflt]
             | Some c \<Rightarrow> c)"
  by (simp add: row_get_def dict_row_def map_of_fold_update_none map_of_fold_update_some
      split: option.splits)

text \<open>The placeholder is shown when the header has no such column.\<close>

lemma row_get_no_column:
  assumes "[Lit k] \<notin> set fieldnames"
  shows "row_get (dict_row fieldnames r) k dflt = [Lit dflt]"
proof -
  from assms have "[Lit k] \<notin> set (drop (length r) fieldnames)"
    by (meson in_set_dropD)
  moreover from assms have "map_of (rev (zip fieldnames r)) [Lit k] = None"
    by (auto simp add: map_of_eq_None_iff dest: set_zip_leftD)
  ultimately show ?thesis by (simp add: row_get_dict_row)
qed

text \<open>
  C7 at a record shorter than the header. The file holds the header and the record
  \<open>Paris\<close>; its temperature column is missing from the row, and the line shows
  \<^verbatim>\<open>str(None)\<close> where the claim has the placeholder \<open>n/a\<close>: DictReader fills the
  missing column with None, so the default of \<^verbatim>\<open>r.get\<close> is not used.
\<close>

theorem read_and_report_short_row:
  "read_and_report ''city_data.csv'' (Some [header_record, [[Lit ''Paris'']]])
     = [Print [Lit ''Entries in '', Lit ''city_data.csv'', Lit '': '', StrOf (PInt 1)],
        Print [Lit '' - '', Lit ''Paris'', Lit '': '', StrOf PNone, Lit (degree @ ''C'')]]"
  by (simp add: read_and_report_def read_rows_def header_record_def CSV_HEADERS_def
      dict_row_def report_line_def row_get_def)

section \<open>Properties of write_row_to_csv\<close>








section \<open>Properties of parse_weather\<close>

text \<open>Reading a field of \<^verbatim>\<open>sys\<close> or \<^verbatim>\<open>main\<close> after the \<^verbatim>\<open>or {}\<close>.\<close>

lemma py_get_or_dict:
  assumes "dict_or_falsy v"
  shows "py_get (py_or v (PDict [])) k dflt
           = Inr (case map_of (items v) k of None \<Rightarrow> dflt | Some x \<Rightarrow> x)"
  using assms by (cases v) (auto simp add: dict_or_falsy_def py_or_def)

lemma description_of_weather:
  assumes "weather_shape v"
  shows "(if truthy (py_or v (PList []))
          then then_do (py_index0 (py_or v (PList []))) (\<lambda>w. py_get w ''description'' PNone)
          else Inr (PStr [])) = Inr (found_description v)"
  using assms
  by (induction v rule: weather_shape.induct) (simp_all add: py_or_def field_def)

text \<open>
  What the parser returns when \<^verbatim>\<open>sys\<close> and \<^verbatim>\<open>main\<close> are dicts or falsy and \<^verbatim>\<open>weather\<close> is
  falsy or a list that starts with a dict: no lookup raises, and the result is
  decided by the two required fields.
\<close>

lemma parse_weather_shaped:
  assumes "dict_or_falsy (field kvs ''sys'')"
    and "dict_or_falsy (field kvs ''main'')"
    and "weather_shape (field kvs ''weather'')"
  shows "parse_weather B (PDict kvs) =
     (if field (items (field kvs ''main'')) ''temp'' = PNone
         \<or> field (items (field kvs ''main'')) ''humidity'' = PNone
      then Inl (ValueError [Lit ''API response missing temperature or humidity fields.''])
      else
        then_do (py_float B (field (items (field kvs ''main'')) ''temp'')) (\<lambda>t.
        then_do (py_int B (field (items (field kvs ''main'')) ''humidity'')) (\<lambda>h.
        Inr [(''City'', case map_of kvs ''name'' of None \<Rightarrow> PStr ''Unknown'' | Some v \<Rightarrow> v),
             (''Country'', case map_of (items (field kvs ''sys'')) ''country'' of
                             None \<Rightarrow> PStr em_dash | Some c \<Rightarrow> c),
             (''Temperature (C)'', PFloat (py_round1 t)),
             (''Humidity (%)'', PInt h),
             (''Description'', py_or (found_description (field kvs ''weather'')) (PStr ''n/a''))])))"
proof -
  have get: "\<And>k. py_get (PDict kvs) k PNone = Inr (field kvs k)"
    by (simp add: field_def)
  have main: "\<And>k. py_get (py_or (field kvs ''main'') (PDict [])) k PNone
                = Inr (field (items (field kvs ''main'')) k)"
    using assms(2) by (simp add: py_get_or_dict field_def)
  show ?thesis
    unfolding parse_weather_def Let_def get then_do.simps
      py_get_or_dict [OF assms(1)] main description_of_weather [OF assms(3)]
    by simp
qed









text \<open>
  C10, as the code has it. When \<^verbatim>\<open>sys\<close> and \<^verbatim>\<open>main\<close> are each absent, null (or falsy in
  another way) or a dict, and \<^verbatim>\<open>weather\<close> is absent, null, empty or a list that starts
  with a dict, reading them raises nothing. The parser fails with the
  missing-field error when the temperature or the humidity is absent or null.
  Otherwise it fails only if \<^verbatim>\<open>float\<close> rejects the temperature or \<^verbatim>\<open>int\<close> the humidity,
  and else returns the record, with \<open>Unknown\<close> for an absent name, the dash for an
  absent country and \<open>n/a\<close> when there is no non-empty description.
\<close>

theorem parse_weather_defaults:
  assumes "dict_or_falsy (field kvs ''sys'')"
    and "dict_or_falsy (field kvs ''main'')"
    and "weather_shape (field kvs ''weather'')"
    and "temp = field (items (field kvs ''main'')) ''temp''"
    and "humidity = field (items (field kvs ''main'')) ''humidity''"
  shows "parse_weather B (PDict kvs) =
     (if temp = PNone \<or> humidity = PNone
      then Inl (ValueError [Lit ''API response missing temperature or humidity fields.''])
      else
        then_do (py_float B temp) (\<lambda>t.
        then_do (py_int B humidity) (\<lambda>h.
        Inr [(''City'', case map_of kvs ''name'' of None \<Rightarrow> PStr ''Unknown'' | Some v \<Rightarrow> v),
             (''Country'', case map_of (items (field kvs ''sys'')) ''country'' of
                             None \<Rightarrow> PStr em_dash | Some c \<Rightarrow> c),
             (''Temperature (C)'', PFloat (py_round1 t)),
             (''Humidity (%)'', PInt h),
             (''Description'', if truthy (found_description (field kvs ''weather''))
                               then found_description (field kvs ''weather'')
                               else PStr ''n/a'')])))"
  unfolding parse_weather_shaped [OF assms(1-3)] assms(4,5) py_or_def by simp

theorem parse_weather_defaults_witness:
  "parse_weather no_literals (PDict [(''sys'', PNone), (''weather'', PList [PDict []])])
     = Inl (ValueError [Lit ''API response missing temperature or humidity fields.''])
   \<and> parse_weather no_literals
         (PDict [(''main'', PDict [(''temp'', PInt 5), (''humidity'', PInt 50)]), (''weather'', PList [])])
     = Inr [(''City'', PStr ''Unknown''),
            (''Country'', PStr em_dash),
            (''Temperature (C)'', PFloat (Finite 5)),
            (''Humidity (%)'', PInt 50),
            (''Description'', PStr ''n/a'')]"
proof -
  have r: "round_half_even 50 = 50" by code_simp
  have "(5 :: int) < float_max_int" by (simp add: float_max_int_def)
  with r show ?thesis
    using parse_weather_defaults
            [of "[(''sys'', PNone), (''weather'', PList [PDict []])]" PNone PNone no_literals]
          parse_weather_defaults
            [of "[(''main'', PDict [(''temp'', PInt 5), (''humidity'', PInt 50)]), (''weather'', PList [])]"
                "PInt 5" "PInt 50" no_literals]
    by (simp add: field_def dict_or_falsy_def)
qed

text \<open>
  C10 as stated fails: with \<^verbatim>\<open>sys\<close> and \<^verbatim>\<open>weather\<close> absent and both required fields
  present, a temperature that is a JSON array makes the parser raise TypeError.
\<close>

theorem parse_weather_list_temperature:
  "parse_weather no_literals
     (PDict [(''main'', PDict [(''temp'', PList []), (''humidity'', PInt 50)])]) = Inl TypeError"
  by (simp add: parse_weather_def py_or_def)

section \<open>Properties of main\<close>

text \<open>
  C2, as the code has it. The key and the city have been read and the response
  has status 200 and a JSON object as body, in which \<^verbatim>\<open>sys\<close> and \<^verbatim>\<open>main\<close> are each
  absent, falsy or a dict and \<^verbatim>\<open>weather\<close> is absent, falsy or a list that starts with
  a dict. If the temperature or the humidity is absent or null, \<open>parse_weather\<close>
  fails with the missing-field error, the program prints it after \<open>Error: \<close> as
  its last output, exits with code 1, and leaves the CSV file as it was.
\<close>

theorem main_missing_field:
  assumes "get_api_key env stdin = (outs1, stdin1, Return api_key)"
    and "prompt_city db stdin1 = (outs2, stdin2, Return city)"
    and "get API_URL [(''q'', city), (''appid'', api_key), (''units'', str_of ''metric'')] 10
           = Response 200 (Some (PDict kvs))"
    and "dict_or_falsy (field kvs ''sys'')"
    and "dict_or_falsy (field kvs ''main'')"
    and "weather_shape (field kvs ''weather'')"
    and "field (items (field kvs ''main'')) ''temp'' = PNone
         \<or> field (items (field kvs ''main'')) ''humidity'' = PNone"
  shows "parse_weather B (PDict kvs)
           = Inl (ValueError [Lit ''API response missing temperature or humidity fields.''])
       \<and> main db B env stdin get csv
           = (outs1 @ outs2
              @ [Print [Lit ''Error: '', Lit ''API response missing temperature or humidity fields.'']],
              ExitCode 1, csv)"
proof -
  have parse: "parse_weather B (PDict kvs)
      = Inl (ValueError [Lit ''API response missing temperature or humidity fields.''])"
    unfolding parse_weather_shaped [OF assms(4-6)] using assms(7) by auto
  have fetch: "fetch_weather get city api_key = Inr (PDict kvs)"
    using assms(3) by (simp add: fetch_weather_def)
  have "fetch_and_report B get city api_key csv
      = ([Print [Lit ''Error: '', Lit ''API response missing temperature or humidity fields.'']],
         ExitCode 1, csv)"
    by (simp add: fetch_and_report_def fetch parse)
  then have "main db B env stdin get csv
           = (outs1 @ outs2
              @ [Print [Lit ''Error: '', Lit ''API response missing temperature or humidity fields.'']],
              ExitCode 1, csv)"
    by (simp add: main_def assms(1,2))
  with parse show ?thesis by simp
qed

theorem main_missing_field_witness:
  "main latin1 no_literals (Some (str_of ''k'')) [str_of ''  oslo '']
     (respond (Response 200 (Some (PDict [(''name'', PStr ''Oslo''), (''main'', PDict [(''temp'', PInt 5)])]))))
     (Some [header_record])
     = ([Prompt ''Enter a city name: '',
         Print [Lit ''Error: '', Lit ''API response missing temperature or humidity fields.'']],
        ExitCode 1, Some [header_record])"
proof -
  have key: "get_api_key (Some (str_of ''k'')) [str_of ''  oslo '']
               = ([], [str_of ''  oslo ''], Return (str_of ''k''))"
    by (simp add: get_api_key_def strip_def str_of_def is_space_def)
  have city: "prompt_city latin1 [str_of ''  oslo '']
                = ([Prompt ''Enter a city name: ''], [], Return (str_of ''Oslo''))"
    by (simp add: strip_def str_of_def is_space_def normalize_city_def split_def title_def
        latin1_def lower_ucs4_def)
  have resp: "respond (Response 200 (Some (PDict [(''name'', PStr ''Oslo''), (''main'', PDict [(''temp'', PInt 5)])])))
                API_URL [(''q'', str_of ''Oslo''), (''appid'', str_of ''k''), (''units'', str_of ''metric'')] 10
              = Response 200 (Some (PDict [(''name'', PStr ''Oslo''), (''main'', PDict [(''temp'', PInt 5)])]))"
    by (simp add: respond_def)
  from main_missing_field
         [where get = "respond (Response 200 (Some (PDict [(''name'', PStr ''Oslo''), (''main'', PDict [(''temp'', PInt 5)])])))"
            and B = no_literals and csv = "Some [header_record]", OF key city resp]
  show ?thesis by (simp add: field_def dict_or_falsy_def)
qed

text \<open>
  C2 as stated fails: in a response without temperature whose \<^verbatim>\<open>sys\<close> is a string, the
  lookup of the country raises AttributeError before the required fields are
  checked; the handler does not catch it and no \<open>Error:\<close> line is printed.
\<close>

theorem main_sys_not_a_dict:
  "parse_weather no_literals (PDict [(''sys'', PStr ''x'')]) = Inl AttributeError
   \<and> main latin1 no_literals (Some (str_of ''k'')) [str_of ''Oslo'']
         (respond (Response 200 (Some (PDict [(''sys'', PStr ''x'')])))) None
     = ([Prompt ''Enter a city name: ''], Uncaught AttributeError, None)"
proof -
  have key: "get_api_key (Some (str_of ''k'')) [str_of ''Oslo'']
               = ([], [str_of ''Oslo''], Return (str_of ''k''))"
    by (simp add: get_api_key_def strip_def str_of_def is_space_def)
  have city: "prompt_city latin1 [str_of ''Oslo'']
                = ([Prompt ''Enter a city name: ''], [], Return (str_of ''Oslo''))"
    by (simp add: strip_def str_of_def is_space_def normalize_city_def split_def title_def
        latin1_def lower_ucs4_def)
  have parse: "parse_weather no_literals (PDict [(''sys'', PStr ''x'')]) = Inl AttributeError"
    by (simp add: parse_weather_def py_or_def)
  have "main latin1 no_literals (Some (str_of ''k'')) [str_of ''Oslo'']
         (respond (Response 200 (Some (PDict [(''sys'', PStr ''x'')])))) None
     = ([Prompt ''Enter a city name: ''], Uncaught AttributeError, None)"
    unfolding main_def key after.simps city
    by (simp add: parse fetch_and_report_def fetch_weather_def respond_def)
  with parse show ?thesis by simp
qed

section \<open>Properties of prompt_city\<close>






















end
